theory Spec2Isabelle
  imports Complex_Main
begin

section \<open>Data model\<close>


text \<open>
  The exceptions of the Python runtime and of the tensor runtime that the module's
  callers can see.  \<open>InvalidArgumentError\<close> is the tensor runtime's own argument error
  (\<^verbatim>\<open>tf.errors.InvalidArgumentError\<close>); no statement of the module raises it.
\<close>

datatype error = ZeroDivisionError | TypeError | InvalidArgumentError

subsection \<open>Tensor operations used by the losses\<close>







section \<open>Hinge loss functions\<close>




section \<open>Minimization\<close>








section \<open>Training driver\<close>

text \<open>
  \<^verbatim>\<open>train_model\<close> has no runtime type check, so \<open>initial_step\<close> can be any Python
  value.  The values modelled: \<^verbatim>\<open>None\<close>, booleans, integers and strings.
\<close>

datatype pyval = PyNone | PyBool bool | PyInt int | PyStr string

text \<open>Python's truth value of an object.\<close>

fun truthy :: "pyval \<Rightarrow> bool" where
  "truthy PyNone = False"
| "truthy (PyBool b) = b"
| "truthy (PyInt n) = (n \<noteq> 0)"
| "truthy (PyStr s) = (s \<noteq> [])"

text \<open>\<^verbatim>\<open>a or b\<close>: \<open>a\<close> when it is true, \<open>b\<close> otherwise.\<close>

definition py_or :: "pyval \<Rightarrow> pyval \<Rightarrow> pyval" where
  "py_or a b = (if truthy a then a else b)"

text \<open>
  \<^verbatim>\<open>a // n\<close> on Python ints: floor division, \<^verbatim>\<open>ZeroDivisionError\<close> for a zero
  divisor.  (\<open>div\<close> on \<open>int\<close> rounds towards minus infinity, as \<^verbatim>\<open>//\<close> does.)
\<close>

definition int_floordiv :: "int \<Rightarrow> int \<Rightarrow> error + int" where
  "int_floordiv a n = (if n = 0 then Inl ZeroDivisionError else Inr (a div n))"

text \<open>
  \<^verbatim>\<open>x // n\<close> for any modelled value \<open>x\<close> and a Python int \<open>n\<close>: a boolean counts as
  0 or 1; \<^verbatim>\<open>None\<close> and strings do not support the operator.
\<close>

fun py_floordiv :: "pyval \<Rightarrow> int \<Rightarrow> error + int" where
  "py_floordiv (PyInt a) n = int_floordiv a n"
| "py_floordiv (PyBool b) n = int_floordiv (if b then 1 else 0) n"
| "py_floordiv PyNone n = Inl TypeError"
| "py_floordiv (PyStr s) n = Inl TypeError"

text \<open>
  The dataset collaborator: \<^verbatim>\<open>data.element_spec[0].shape[0]\<close>, the leading dimension
  of the first component of a batch (\<^verbatim>\<open>None\<close> when it is not statically known).
\<close>

record dataset =
  element_batch_dim :: "int option"

text \<open>
  Modelled from the spec: the model collaborator (a Keras model of this repository,
  whose class is not in the module).  It exposes a callback-creation method taking a
  directory, a fit method taking a dataset, a callback set and epoch bounds, and a
  settable \<^verbatim>\<open>global_batch_size\<close> attribute.  The model records the calls it receives.
\<close>

datatype callbacks = Callbacks string

record fit_call =
  fit_data :: dataset
  fit_callbacks :: callbacks
  fit_epochs :: int
  fit_steps_per_epoch :: int
  fit_initial_epoch :: int

record keras_model =
  model_global_batch_size :: "int option"
  create_callbacks_calls :: "string list"
  fit_calls :: "fit_call list"

definition create_callbacks :: "string \<Rightarrow> keras_model \<Rightarrow> callbacks \<times> keras_model" where
  "create_callbacks model_dir model =
     (Callbacks model_dir,
      model\<lparr>create_callbacks_calls := create_callbacks_calls model @ [model_dir]\<rparr>)"

definition fit :: "fit_call \<Rightarrow> keras_model \<Rightarrow> keras_model" where
  "fit args model = model\<lparr>fit_calls := fit_calls model @ [args]\<rparr>"

text \<open>
  \<^verbatim>\<open>
  callbacks = model.create_callbacks(model_dir)
  model.global_batch_size = data.element_spec[0].shape[0]
  model.fit(
      data,
      callbacks=callbacks,
      epochs=num_steps//log_every,
      steps_per_epoch=log_every,
      initial_epoch=(initial_step or 0) // log_every,
  )
  return model
  \<close>
  The result is the model object as the call leaves it, with the exception raised, if
  any.  The arguments of \<^verbatim>\<open>fit\<close> are evaluated in the order written, before the call.
\<close>

definition train_model ::
  "keras_model \<Rightarrow> dataset \<Rightarrow> string \<Rightarrow> int \<Rightarrow> int \<Rightarrow> pyval \<Rightarrow> (error + unit) \<times> keras_model" where
  "train_model model data model_dir num_steps log_every initial_step =
     (case create_callbacks model_dir model of (callbacks, model1) \<Rightarrow>
        (let model2 = model1\<lparr>model_global_batch_size := element_batch_dim data\<rparr> in
         case int_floordiv num_steps log_every of
           Inl e \<Rightarrow> (Inl e, model2)
         | Inr epochs \<Rightarrow>
             (case py_floordiv (py_or initial_step (PyInt 0)) log_every of
                Inl e \<Rightarrow> (Inl e, model2)
              | Inr initial_epoch \<Rightarrow>
                  (Inr (),
                   fit \<lparr>fit_data = data, fit_callbacks = callbacks, fit_epochs = epochs,
                        fit_steps_per_epoch = log_every,
                        fit_initial_epoch = initial_epoch\<rparr> model2))))"

text \<open>The arguments the last call of \<^verbatim>\<open>fit\<close> received, if there was a call.\<close>

definition last_fit :: "keras_model \<Rightarrow> fit_call option" where
  "last_fit model = (if fit_calls model = [] then None else Some (last (fit_calls model)))"

definition new_model :: keras_model where
  "new_model = \<lparr>model_global_batch_size = None, create_callbacks_calls = [], fit_calls = []\<rparr>"

definition batches_of_8 :: dataset where
  "batches_of_8 = \<lparr>element_batch_dim = Some 8\<rparr>"

section \<open>Properties of the hinge losses\<close>

















section \<open>Properties of the minimization\<close>



section \<open>Properties of the training driver\<close>

lemmas train_defs =
  train_model_def create_callbacks_def fit_def int_floordiv_def py_or_def last_fit_def

text \<open>
  C5: for a positive \<open>log_every\<close> and non-negative \<open>num_steps\<close> and \<open>initial_step\<close>,
  \<open>train_model\<close> calls \<open>fit\<close> once, with \<open>epochs = num_steps // log_every\<close>,
  \<open>steps_per_epoch = log_every\<close> and \<open>initial_epoch = initial_step // log_every\<close>, both
  floor divisions: the steps of the schedule are \<open>num_steps\<close> less the remainder
  \<open>num_steps mod log_every\<close>, which is dropped.  \<open>num_steps = 100\<close>, \<open>log_every = 10\<close>
  gives 10 epochs, with initial epoch 0 for \<open>initial_step = 0\<close> and 5 for
  \<open>initial_step = 50\<close>.
\<close>

theorem train_model_schedule:
  assumes "0 < log_every" and "0 \<le> num_steps" and "0 \<le> initial_step"
  shows "\<exists>model' call.
           train_model model data model_dir num_steps log_every (PyInt initial_step)
             = (Inr (), model')
         \<and> fit_calls model' = fit_calls model @ [call]
         \<and> fit_epochs call = num_steps div log_every
         \<and> fit_steps_per_epoch call = log_every
         \<and> fit_initial_epoch call = initial_step div log_every
         \<and> fit_epochs call * fit_steps_per_epoch call = num_steps - num_steps mod log_every
         \<and> fit_epochs call * fit_steps_per_epoch call \<le> num_steps
         \<and> num_steps < (fit_epochs call + 1) * fit_steps_per_epoch call
         \<and> map_option (\<lambda>c. (fit_epochs c, fit_initial_epoch c))
              (last_fit (snd (train_model new_model batches_of_8 ''out'' 100 10 (PyInt 0))))
             = Some (10, 0)
         \<and> map_option (\<lambda>c. (fit_epochs c, fit_initial_epoch c))
              (last_fit (snd (train_model new_model batches_of_8 ''out'' 100 10 (PyInt 50))))
             = Some (10, 5)"
proof -
  let ?call = "\<lparr>fit_data = data, fit_callbacks = Callbacks model_dir,
                 fit_epochs = num_steps div log_every, fit_steps_per_epoch = log_every,
                 fit_initial_epoch = initial_step div log_every\<rparr>"
  let ?model' = "model\<lparr>create_callbacks_calls := create_callbacks_calls model @ [model_dir],
                        model_global_batch_size := element_batch_dim data,
                        fit_calls := fit_calls model @ [?call]\<rparr>"
  from assms have run: "train_model model data model_dir num_steps log_every (PyInt initial_step)
             = (Inr (), ?model')"
    by (simp add: train_defs)
  define q where "q = num_steps div log_every"
  define r where "r = num_steps mod log_every"
  have split: "num_steps = q * log_every + r"
    by (simp add: q_def r_def)
  have r_bounds: "0 \<le> r" "r < log_every"
    using assms(1) by (simp_all add: r_def)
  have succ: "(q + 1) * log_every = q * log_every + log_every"
    by (simp add: algebra_simps)
  have floor1: "q * log_every = num_steps - r"
    using split by linarith
  have floor2: "q * log_every \<le> num_steps"
    using split r_bounds by linarith
  have floor3: "num_steps < (q + 1) * log_every"
    using split r_bounds succ by linarith
  have ex1: "map_option (\<lambda>c. (fit_epochs c, fit_initial_epoch c))
              (last_fit (snd (train_model new_model batches_of_8 ''out'' 100 10 (PyInt 0))))
             = Some (10, 0)"
    by (simp add: train_defs new_model_def batches_of_8_def)
  have ex2: "map_option (\<lambda>c. (fit_epochs c, fit_initial_epoch c))
              (last_fit (snd (train_model new_model batches_of_8 ''out'' 100 10 (PyInt 50))))
             = Some (10, 5)"
    by (simp add: train_defs new_model_def batches_of_8_def)
  show ?thesis
    apply (rule exI [of _ ?model'])
    apply (rule exI [of _ ?call])
    using run floor1 floor2 floor3 ex1 ex2
    apply (simp add: q_def r_def)
    done
qed

theorem train_model_schedule_witness:
  "(0::int) < 10 \<and> (0::int) \<le> 107 \<and> (0::int) \<le> 33
   \<and> train_model new_model batches_of_8 ''out'' 107 10 (PyInt 33)
      = (Inr (), \<lparr>model_global_batch_size = Some 8, create_callbacks_calls = [''out''],
                   fit_calls = [\<lparr>fit_data = batches_of_8, fit_callbacks = Callbacks ''out'',
                                  fit_epochs = 10, fit_steps_per_epoch = 10,
                                  fit_initial_epoch = 3\<rparr>]\<rparr>)"
  using train_model_schedule [of 10 107 33 new_model batches_of_8 "''out''"]
  by (simp add: train_defs new_model_def batches_of_8_def)

text \<open>
  C6 (amended): with \<open>log_every = 0\<close>, whatever the other arguments, \<open>train_model\<close> fails
  with \<^verbatim>\<open>ZeroDivisionError\<close>, raised by \<^verbatim>\<open>num_steps // log_every\<close> while the arguments
  of \<open>fit\<close> are evaluated: \<open>fit\<close> is not called.  The callbacks have been created and the
  global batch size has been set on the model by then.
\<close>

theorem train_model_log_every_zero:
  "train_model model data model_dir num_steps 0 initial_step
     = (Inl ZeroDivisionError,
        model\<lparr>create_callbacks_calls := create_callbacks_calls model @ [model_dir],
               model_global_batch_size := element_batch_dim data\<rparr>)
   \<and> fit_calls (snd (train_model model data model_dir num_steps 0 initial_step))
     = fit_calls model"
  by (simp add: train_model_def create_callbacks_def int_floordiv_def)

theorem train_model_log_every_zero_witness:
  "train_model new_model batches_of_8 ''out'' 100 0 PyNone
     = (Inl ZeroDivisionError,
        \<lparr>model_global_batch_size = Some 8, create_callbacks_calls = [''out''],
         fit_calls = []\<rparr>)"
  using train_model_log_every_zero [of new_model batches_of_8 "''out''" 100 PyNone]
  by (simp add: new_model_def batches_of_8_def)

text \<open>
  The exception of the call with \<open>log_every = 0\<close> is the division's own, not an
  argument error: nothing in \<open>train_model\<close> checks \<open>log_every\<close>.
\<close>

theorem train_model_log_every_zero_counterexample:
  "fst (train_model new_model batches_of_8 ''out'' 100 0 (PyInt 0)) = Inl ZeroDivisionError
   \<and> fst (train_model new_model batches_of_8 ''out'' 100 0 (PyInt 0)) \<noteq> Inl InvalidArgumentError"
  by (simp add: train_model_def create_callbacks_def int_floordiv_def)

text \<open>
  C10: a false \<open>initial_step\<close> (\<^verbatim>\<open>None\<close> as well as 0) is replaced by 0 before the
  division: the call behaves as the call with \<open>initial_step = 0\<close>, and with a non-zero
  \<open>log_every\<close> it does not fail and passes \<open>initial_epoch = 0\<close> to \<open>fit\<close>.
\<close>

theorem train_model_falsy_initial_step:
  assumes "\<not> truthy initial_step" and "log_every \<noteq> 0"
  shows "train_model model data model_dir num_steps log_every initial_step
           = train_model model data model_dir num_steps log_every (PyInt 0)
         \<and> fst (train_model model data model_dir num_steps log_every initial_step) = Inr ()
         \<and> map_option fit_initial_epoch
              (last_fit (snd (train_model model data model_dir num_steps log_every initial_step)))
             = Some 0
         \<and> \<not> truthy PyNone"
  using assms by (simp add: train_defs)

theorem train_model_falsy_initial_step_witness:
  "\<not> truthy PyNone \<and> (10::int) \<noteq> 0
   \<and> train_model new_model batches_of_8 ''out'' 100 10 PyNone
      = (Inr (), \<lparr>model_global_batch_size = Some 8, create_callbacks_calls = [''out''],
                   fit_calls = [\<lparr>fit_data = batches_of_8, fit_callbacks = Callbacks ''out'',
                                  fit_epochs = 10, fit_steps_per_epoch = 10,
                                  fit_initial_epoch = 0\<rparr>]\<rparr>)"
  using train_model_falsy_initial_step [of PyNone 10 new_model batches_of_8 "''out''" 100]
  by (simp add: train_defs new_model_def batches_of_8_def)

end
